theory Spec2Isabelle
  imports Complex_Main
begin

section \<open>Geometry primitives\<close>

text \<open>
  A \<open>float\<close> of the engine is a real number here.  Where a result depends on how the
  arithmetic rounds (the circumsphere), every operation takes the rounding function
  \<open>fl\<close> and rounds its exact result with it: the identity is exact arithmetic,
  \<open>fl32\<close> is single precision.  The sampler's weights are computed exactly.  The
  infinities and NaN have no counterpart.  Unsigned 32-bit indices are natural numbers;
  \<open>M_MAX_UNSIGNED\<close> is the null index.
\<close>

datatype Vector3 = Vector3 (vx: real) (vy: real) (vz: real)

datatype Vector4 = Vector4 (x4: real) (y4: real) (z4: real) (w4: real)

definition vadd :: "Vector3 \<Rightarrow> Vector3 \<Rightarrow> Vector3" where
  "vadd a b = Vector3 (vx a + vx b) (vy a + vy b) (vz a + vz b)"

definition vsub :: "Vector3 \<Rightarrow> Vector3 \<Rightarrow> Vector3" where
  "vsub a b = Vector3 (vx a - vx b) (vy a - vy b) (vz a - vz b)"

definition vscale :: "real \<Rightarrow> Vector3 \<Rightarrow> Vector3" where
  "vscale s a = Vector3 (s * vx a) (s * vy a) (s * vz a)"

definition vdiv :: "Vector3 \<Rightarrow> real \<Rightarrow> Vector3" where
  "vdiv a s = Vector3 (vx a / s) (vy a / s) (vz a / s)"

definition vmul :: "Vector3 \<Rightarrow> Vector3 \<Rightarrow> Vector3" where
  "vmul a b = Vector3 (vx a * vx b) (vy a * vy b) (vz a * vz b)"

definition DotProduct :: "Vector3 \<Rightarrow> Vector3 \<Rightarrow> real" where
  "DotProduct a b = vx a * vx b + vy a * vy b + vz a * vz b"

definition CrossProduct :: "Vector3 \<Rightarrow> Vector3 \<Rightarrow> Vector3" where
  "CrossProduct a b =
     Vector3 (vy a * vz b - vz a * vy b) (vz a * vx b - vx a * vz b) (vx a * vy b - vy a * vx b)"

definition LengthSquared :: "Vector3 \<Rightarrow> real" where
  "LengthSquared a = DotProduct a a"

definition Length :: "Vector3 \<Rightarrow> real" where
  "Length a = sqrt (LengthSquared a)"

subsection \<open>Rounded arithmetic\<close>




text \<open>
  The operators of \<open>Vector3\<close> that the circumsphere uses, each operation rounded.  The
  class belongs to the engine's math library, which is not part of the sources; the
  operators are componentwise, a dot product is \<open>x*x' + y*y' + z*z'\<close> summed from the
  left, and \<open>Length\<close> is the square root of \<open>LengthSquared\<close>.
\<close>

definition vaddF :: "(real \<Rightarrow> real) \<Rightarrow> Vector3 \<Rightarrow> Vector3 \<Rightarrow> Vector3" where
  "vaddF fl a b = Vector3 (fl (vx a + vx b)) (fl (vy a + vy b)) (fl (vz a + vz b))"

definition vsubF :: "(real \<Rightarrow> real) \<Rightarrow> Vector3 \<Rightarrow> Vector3 \<Rightarrow> Vector3" where
  "vsubF fl a b = Vector3 (fl (vx a - vx b)) (fl (vy a - vy b)) (fl (vz a - vz b))"

definition vscaleF :: "(real \<Rightarrow> real) \<Rightarrow> real \<Rightarrow> Vector3 \<Rightarrow> Vector3" where
  "vscaleF fl s a = Vector3 (fl (s * vx a)) (fl (s * vy a)) (fl (s * vz a))"

definition vdivF :: "(real \<Rightarrow> real) \<Rightarrow> Vector3 \<Rightarrow> real \<Rightarrow> Vector3" where
  "vdivF fl a s = Vector3 (fl (vx a / s)) (fl (vy a / s)) (fl (vz a / s))"

definition DotProductF :: "(real \<Rightarrow> real) \<Rightarrow> Vector3 \<Rightarrow> Vector3 \<Rightarrow> real" where
  "DotProductF fl a b = fl (fl (fl (vx a * vx b) + fl (vy a * vy b)) + fl (vz a * vz b))"

definition CrossProductF :: "(real \<Rightarrow> real) \<Rightarrow> Vector3 \<Rightarrow> Vector3 \<Rightarrow> Vector3" where
  "CrossProductF fl a b =
     Vector3 (fl (fl (vy a * vz b) - fl (vz a * vy b)))
             (fl (fl (vz a * vx b) - fl (vx a * vz b)))
             (fl (fl (vx a * vy b) - fl (vy a * vx b)))"

definition LengthSquaredF :: "(real \<Rightarrow> real) \<Rightarrow> Vector3 \<Rightarrow> real" where
  "LengthSquaredF fl a = DotProductF fl a a"

definition LengthF :: "(real \<Rightarrow> real) \<Rightarrow> Vector3 \<Rightarrow> real" where
  "LengthF fl a = fl (sqrt (LengthSquaredF fl a))"

definition M_MAX_UNSIGNED :: nat where
  "M_MAX_UNSIGNED = 4294967295"

text \<open>
  Modelled from the spec: the two tolerances \<open>M_EPSILON\<close> and \<open>M_LARGE_EPSILON\<close>
  are declared in a header that is not part of the sources; the spec only calls each
  ``a small epsilon''.  The values below are small positive placeholders.
\<close>

definition M_EPSILON :: real where
  "M_EPSILON = 1 / 1000000"

definition M_LARGE_EPSILON :: real where
  "M_LARGE_EPSILON = 5 / 100000"

record Sphere =
  center :: Vector3
  radius :: real

section \<open>The tetrahedral mesh\<close>

text \<open>
  A 3x3 matrix has its nine entries in row-major order, as the arguments of the
  \<open>Matrix3\<close> constructor are.  The fixed arrays \<open>indices_[4]\<close> and
  \<open>neighbors_[4]\<close> are lists of length four; a field \<open>name_\<close> of the source is
  the field \<open>name\<close> here.
\<close>

datatype Matrix3 = Matrix3 (m00: real) (m01: real) (m02: real)
                           (m10: real) (m11: real) (m12: real)
                           (m20: real) (m21: real) (m22: real)

record Tetrahedron =
  indices :: "nat list"
  neighbors :: "nat list"
  matrix :: Matrix3

record TetrahedralMesh =
  vertices :: "Vector3 list"
  tetrahedrons :: "Tetrahedron list"

text \<open>
  Failures of a run: a failed \<open>assert\<close> (the build aborts with the assertion's
  diagnostic), a read or write outside an array (undefined behaviour in the source), and
  a floating-point division by zero, whose infinite or NaN result is outside the model.
\<close>

datatype error = AssertionFailed | OutOfBounds | NotFinite

text \<open>
  \<open>assert\<close> is the C macro: it aborts when its condition is false, unless the
  translation unit is compiled with \<open>NDEBUG\<close>, where it expands to nothing.  The
  flag \<open>ndebug\<close> is a parameter of every function that asserts.
\<close>

definition cellVerticesInRange :: "nat \<Rightarrow> Tetrahedron \<Rightarrow> bool" where
  "cellVerticesInRange n cell =
     (indices cell ! 0 < n \<and> indices cell ! 1 < n \<and> indices cell ! 2 < n \<and> indices cell ! 3 < n)"

subsection \<open>Circumsphere\<close>

definition circumNum :: "(real \<Rightarrow> real) \<Rightarrow> Vector3 \<Rightarrow> Vector3 \<Rightarrow> Vector3 \<Rightarrow> Vector3" where
  "circumNum fl u1 u2 u3 =
     vaddF fl (vaddF fl (vscaleF fl (LengthSquaredF fl u1) (CrossProductF fl u2 u3))
                        (vscaleF fl (LengthSquaredF fl u2) (CrossProductF fl u3 u1)))
              (vscaleF fl (LengthSquaredF fl u3) (CrossProductF fl u1 u2))"

definition circumDen :: "(real \<Rightarrow> real) \<Rightarrow> Vector3 \<Rightarrow> Vector3 \<Rightarrow> Vector3 \<Rightarrow> real" where
  "circumDen fl u1 u2 u3 = fl (2 * DotProductF fl u1 (CrossProductF fl u2 u3))"

text \<open>The vector \<open>r0 = num / den\<close>, from the first vertex to the centre.\<close>

definition circumOffset :: "(real \<Rightarrow> real) \<Rightarrow> Vector3 \<Rightarrow> Vector3 \<Rightarrow> Vector3 \<Rightarrow> Vector3 \<Rightarrow> Vector3" where
  "circumOffset fl p0 p1 p2 p3 =
     (let u1 = vsubF fl p1 p0; u2 = vsubF fl p2 p0; u3 = vsubF fl p3 p0
      in vdivF fl (circumNum fl u1 u2 u3) (circumDen fl u1 u2 u3))"

definition max4 :: "real \<Rightarrow> real \<Rightarrow> real \<Rightarrow> real \<Rightarrow> real" where
  "max4 a b c d = max (max (max a b) c) d"

definition circumsphereOf :: "(real \<Rightarrow> real) \<Rightarrow> Vector3 \<Rightarrow> Vector3 \<Rightarrow> Vector3 \<Rightarrow> Vector3 \<Rightarrow> Sphere" where
  "circumsphereOf fl p0 p1 p2 p3 =
     (let r0 = circumOffset fl p0 p1 p2 p3;
          c = vaddF fl p0 r0;
          eps = M_LARGE_EPSILON;
          rad = max4 (LengthF fl r0) (LengthF fl (vsubF fl p1 c))
                     (LengthF fl (vsubF fl p2 c)) (LengthF fl (vsubF fl p3 c))
      in \<lparr> center = c, radius = fl (rad + eps) \<rparr>)"

definition GetTetrahedronCircumsphere ::
  "bool \<Rightarrow> (real \<Rightarrow> real) \<Rightarrow> TetrahedralMesh \<Rightarrow> nat \<Rightarrow> error + Sphere" where
  "GetTetrahedronCircumsphere ndebug fl mesh tetIndex =
     (if tetIndex \<ge> length (tetrahedrons mesh) then Inl OutOfBounds
      else let tetrahedron = tetrahedrons mesh ! tetIndex;
               vs = vertices mesh
      in if \<not> cellVerticesInRange (length vs) tetrahedron then Inl OutOfBounds
      else let p0 = vs ! (indices tetrahedron ! 0);
               p1 = vs ! (indices tetrahedron ! 1);
               p2 = vs ! (indices tetrahedron ! 2);
               p3 = vs ! (indices tetrahedron ! 3);
               den = circumDen fl (vsubF fl p1 p0) (vsubF fl p2 p0) (vsubF fl p3 p0)
      in if \<not> ndebug \<and> \<not> (\<bar>den\<bar> > M_EPSILON) then Inl AssertionFailed
         else if den = 0 then Inl NotFinite
         else Inr (circumsphereOf fl p0 p1 p2 p3))"

section \<open>Spatial sampler\<close>

text \<open>
  Modelled from the spec: \<open>TetrahedralMesh::GetInnerBarycentricCoords\<close> is declared in
  a header that is not part of the sources.  The spec gives it as
  \<open>w123 = invMatrix * (position - vertex0)\<close>, \<open>w0 = 1 - w1 - w2 - w3\<close>; it reads
  the cell at \<open>cellIndex\<close> and that cell's vertex 0.
\<close>

definition mulVec :: "Matrix3 \<Rightarrow> Vector3 \<Rightarrow> Vector3" where
  "mulVec m v = Vector3 (m00 m * vx v + m01 m * vy v + m02 m * vz v)
                        (m10 m * vx v + m11 m * vy v + m12 m * vz v)
                        (m20 m * vx v + m21 m * vy v + m22 m * vz v)"

definition baryOf :: "Matrix3 \<Rightarrow> Vector3 \<Rightarrow> Vector3 \<Rightarrow> Vector4" where
  "baryOf m p0 position =
     (let w = mulVec m (vsub position p0)
      in Vector4 (1 - vx w - vy w - vz w) (vx w) (vy w) (vz w))"

definition GetInnerBarycentricCoords :: "TetrahedralMesh \<Rightarrow> nat \<Rightarrow> Vector3 \<Rightarrow> error + Vector4" where
  "GetInnerBarycentricCoords mesh cellIndex position =
     (if cellIndex \<ge> length (tetrahedrons mesh) then Inl OutOfBounds
      else let cell = tetrahedrons mesh ! cellIndex
      in if indices cell ! 0 \<ge> length (vertices mesh) then Inl OutOfBounds
         else Inr (baryOf (matrix cell) (vertices mesh ! (indices cell ! 0)) position))"

text \<open>
  The chain of comparisons of \<open>SampleLightProbeMesh\<close> that picks the face to walk
  through, and the test that ends the walk with success.
\<close>

definition allNonNegative :: "Vector4 \<Rightarrow> bool" where
  "allNonNegative w = (x4 w \<ge> 0 \<and> y4 w \<ge> 0 \<and> z4 w \<ge> 0 \<and> w4 w \<ge> 0)"

definition stepFace :: "Vector4 \<Rightarrow> nat" where
  "stepFace w =
     (if x4 w < y4 w \<and> x4 w < z4 w \<and> x4 w < w4 w then 0
      else if y4 w < z4 w \<and> y4 w < w4 w then 1
      else if z4 w < w4 w then 2
      else 3)"

text \<open>
  The loop of \<open>SampleLightProbeMesh\<close>, with the iterations that remain as the
  recursion argument.  It returns the weights and the updated hint.  The cell read at
  \<open>tetrahedrons_[hint]\<close> is the one \<open>GetInnerBarycentricCoords\<close> has just read.
\<close>

fun walk :: "TetrahedralMesh \<Rightarrow> Vector3 \<Rightarrow> nat \<Rightarrow> Vector4 \<Rightarrow> nat \<Rightarrow> error + Vector4 \<times> nat" where
  "walk mesh position 0 weights hint = Inr (weights, hint)"
| "walk mesh position (Suc n) weights hint =
     (case GetInnerBarycentricCoords mesh hint position of
        Inl e \<Rightarrow> Inl e
      | Inr w \<Rightarrow>
          if allNonNegative w then Inr (w, hint)
          else let hint' = neighbors (tetrahedrons mesh ! hint) ! stepFace w
               in if hint' = M_MAX_UNSIGNED then Inr (w, hint')
                  else walk mesh position n w hint')"

text \<open>
  \<open>numProbes\<close> is \<open>lightProbesCollection_.Size()\<close>.  The local \<open>weights\<close> starts
  as the engine's default-constructed vector, which is zero.
\<close>

definition SampleLightProbeMesh ::
  "TetrahedralMesh \<Rightarrow> nat \<Rightarrow> Vector3 \<Rightarrow> nat \<Rightarrow> error + Vector4 \<times> nat" where
  "SampleLightProbeMesh mesh numProbes position hint =
     (let maxIters = numProbes;
          hint0 = (if hint \<ge> maxIters then 0 else hint)
      in walk mesh position maxIters (Vector4 0 0 0 0) hint0)"

definition weightAt :: "Vector4 \<Rightarrow> nat \<Rightarrow> real" where
  "weightAt w i = (if i = 0 then x4 w else if i = 1 then y4 w else if i = 2 then z4 w else w4 w)"

text \<open>
  \<open>SampleAmbientSH\<close> over any payload that can be scaled and added; the probes'
  \<open>bakedLight_\<close> values are the list \<open>lightProbes\<close>.
\<close>

definition blend :: "'a::real_vector list \<Rightarrow> Tetrahedron \<Rightarrow> Vector4 \<Rightarrow> 'a" where
  "blend lightProbes tetrahedron weights =
     foldl (\<lambda>sh i. sh + weightAt weights i *\<^sub>R (lightProbes ! (indices tetrahedron ! i))) 0 [0, 1, 2, 3]"

definition SampleAmbientSH ::
  "TetrahedralMesh \<Rightarrow> 'a::real_vector list \<Rightarrow> Vector3 \<Rightarrow> nat \<Rightarrow> error + 'a \<times> nat" where
  "SampleAmbientSH mesh lightProbes position hint =
     (case SampleLightProbeMesh mesh (length lightProbes) position hint of
        Inl e \<Rightarrow> Inl e
      | Inr (weights, hint') \<Rightarrow>
          if hint' \<ge> length (tetrahedrons mesh) then Inr (0, hint')
          else let tetrahedron = tetrahedrons mesh ! hint'
               in if \<not> cellVerticesInRange (length lightProbes) tetrahedron then Inl OutOfBounds
                  else Inr (blend lightProbes tetrahedron weights, hint'))"

section \<open>The walk step and its tie-break\<close>

definition minWeight :: "Vector4 \<Rightarrow> real" where
  "minWeight w = min (min (x4 w) (y4 w)) (min (z4 w) (w4 w))"

text \<open>
  The spec's rule, in its words: among \<open>w0..w3\<close> the most negative coordinate, the
  lowest index winning a tie.
\<close>

definition lowestMinFace :: "Vector4 \<Rightarrow> nat" where
  "lowestMinFace w =
     (if x4 w = minWeight w then 0 else if y4 w = minWeight w then 1
      else if z4 w = minWeight w then 2 else 3)"

text \<open>The same rule with the highest index winning a tie.\<close>

definition highestMinFace :: "Vector4 \<Rightarrow> nat" where
  "highestMinFace w =
     (if w4 w = minWeight w then 3 else if z4 w = minWeight w then 2
      else if y4 w = minWeight w then 1 else 0)"

text \<open>A one-cell mesh on the unit tetrahedron, used to run single steps of the walk.\<close>

definition unitCell :: Tetrahedron where
  "unitCell = \<lparr> indices = [0, 1, 2, 3],
                neighbors = [M_MAX_UNSIGNED, M_MAX_UNSIGNED, M_MAX_UNSIGNED, M_MAX_UNSIGNED],
                matrix = Matrix3 1 0 0 0 1 0 0 0 1 \<rparr>"

definition unitMesh :: TetrahedralMesh where
  "unitMesh = \<lparr> vertices = [Vector3 0 0 0, Vector3 1 0 0, Vector3 0 1 0, Vector3 0 0 1],
                tetrahedrons = [unitCell] \<rparr>"

lemma stepFace_highest: "stepFace w = highestMinFace w"
  by (cases w) (auto simp: stepFace_def highestMinFace_def minWeight_def min_def)

lemma weightAt_highest: "weightAt w (highestMinFace w) = minWeight w"
  by (cases w) (auto simp: weightAt_def highestMinFace_def minWeight_def min_def)

lemma highest_is_last: "i < 4 \<Longrightarrow> weightAt w i = minWeight w \<Longrightarrow> i \<le> highestMinFace w"
  by (cases w) (auto simp: weightAt_def highestMinFace_def minWeight_def min_def split: if_splits)

lemma negative_minWeight: "\<not> allNonNegative w \<Longrightarrow> minWeight w < 0"
  by (cases w) (auto simp: allNonNegative_def minWeight_def min_def)

lemma unitMesh_bary:
  "GetInnerBarycentricCoords unitMesh 0 (Vector3 x y z) = Inr (Vector4 (1 - x - y - z) x y z)"
  by (simp add: GetInnerBarycentricCoords_def unitMesh_def unitCell_def baryOf_def mulVec_def
      vsub_def)

text \<open>
  A mesh of five cells: the unit tetrahedron as cell 0 and, across each of its faces, the
  cell on that face and the mirror image of the opposite vertex.  Each matrix is the
  inverse basis of its cell, and the adjacency is symmetric.
\<close>

definition starMesh :: TetrahedralMesh where
  "starMesh =
     \<lparr> vertices = [Vector3 0 0 0, Vector3 1 0 0, Vector3 0 1 0, Vector3 0 0 1,
                   Vector3 1 1 1, Vector3 (-1) 0 0, Vector3 0 (-1) 0, Vector3 0 0 (-1)],
       tetrahedrons =
         [\<lparr> indices = [0, 1, 2, 3], neighbors = [1, 2, 3, 4],
            matrix = Matrix3 1 0 0 0 1 0 0 0 1 \<rparr>,
          \<lparr> indices = [4, 1, 2, 3],
            neighbors = [0, M_MAX_UNSIGNED, M_MAX_UNSIGNED, M_MAX_UNSIGNED],
            matrix = Matrix3 (1 / 2) (- 1 / 2) (- 1 / 2) (- 1 / 2) (1 / 2) (- 1 / 2)
                             (- 1 / 2) (- 1 / 2) (1 / 2) \<rparr>,
          \<lparr> indices = [5, 0, 2, 3],
            neighbors = [0, M_MAX_UNSIGNED, M_MAX_UNSIGNED, M_MAX_UNSIGNED],
            matrix = Matrix3 1 (- 1) (- 1) 0 1 0 0 0 1 \<rparr>,
          \<lparr> indices = [6, 0, 1, 3],
            neighbors = [0, M_MAX_UNSIGNED, M_MAX_UNSIGNED, M_MAX_UNSIGNED],
            matrix = Matrix3 (- 1) 1 (- 1) 1 0 0 0 0 1 \<rparr>,
          \<lparr> indices = [7, 0, 1, 2],
            neighbors = [0, M_MAX_UNSIGNED, M_MAX_UNSIGNED, M_MAX_UNSIGNED],
            matrix = Matrix3 (- 1) (- 1) 1 1 0 0 0 1 0 \<rparr>] \<rparr>"

lemma starMesh_bary0:
  "GetInnerBarycentricCoords starMesh 0 (Vector3 (-1) 3 0) = Inr (Vector4 (-1) (-1) 3 0)"
  by (simp add: GetInnerBarycentricCoords_def starMesh_def baryOf_def mulVec_def vsub_def)

lemma starMesh_bary2:
  "GetInnerBarycentricCoords starMesh 2 (Vector3 (-1) 3 0) = Inr (Vector4 1 (-3) 3 0)"
  by (simp add: GetInnerBarycentricCoords_def starMesh_def baryOf_def mulVec_def vsub_def)

text \<open>
  C4, as the spec states it, fails.  From cell 0 of \<open>starMesh\<close> the position
  \<open>(-1, 3, 0)\<close> has the weights \<open>(-1, -1, 3, 0)\<close>: \<open>w0\<close> and \<open>w1\<close> are most negative
  together.  The spec's rule steps through face 0, to cell 1; the walk steps through
  face 1, to cell 2, and leaves the mesh from there.
\<close>

theorem C4_lowest_index_counterexample:
  "GetInnerBarycentricCoords starMesh 0 (Vector3 (-1) 3 0) = Inr (Vector4 (-1) (-1) 3 0)
   \<and> \<not> allNonNegative (Vector4 (-1) (-1) 3 0)
   \<and> neighbors (tetrahedrons starMesh ! 0) ! lowestMinFace (Vector4 (-1) (-1) 3 0) = 1
   \<and> walk starMesh (Vector3 (-1) 3 0) (Suc 0) (Vector4 0 0 0 0) 0
       = Inr (Vector4 (-1) (-1) 3 0, 2)
   \<and> SampleLightProbeMesh starMesh 8 (Vector3 (-1) 3 0) 0
       = Inr (Vector4 1 (-3) 3 0, M_MAX_UNSIGNED)"
proof -
  have nb0: "neighbors (tetrahedrons starMesh ! 0) = [1, 2, 3, 4]"
    and nb2: "neighbors (tetrahedrons starMesh ! 2)
                = [0, M_MAX_UNSIGNED, M_MAX_UNSIGNED, M_MAX_UNSIGNED]"
    by (simp_all add: starMesh_def)
  have a: "\<not> allNonNegative (Vector4 (-1) (-1) 3 0)"
    by (simp add: allNonNegative_def)
  have b: "neighbors (tetrahedrons starMesh ! 0) ! lowestMinFace (Vector4 (-1) (-1) 3 0) = 1"
    by (simp add: nb0 lowestMinFace_def minWeight_def)
  have c: "walk starMesh (Vector3 (-1) 3 0) (Suc 0) (Vector4 0 0 0 0) 0
      = Inr (Vector4 (-1) (-1) 3 0, 2)"
    by (simp add: starMesh_bary0 nb0 allNonNegative_def stepFace_def M_MAX_UNSIGNED_def)
  have two: "walk starMesh (Vector3 (-1) 3 0) (Suc (Suc n)) (Vector4 0 0 0 0) 0
      = Inr (Vector4 1 (-3) 3 0, M_MAX_UNSIGNED)" for n
    by (simp add: starMesh_bary0 starMesh_bary2 nb0 nb2 allNonNegative_def stepFace_def
        M_MAX_UNSIGNED_def)
  have "SampleLightProbeMesh starMesh (Suc (Suc 6)) (Vector3 (-1) 3 0) 0
      = Inr (Vector4 1 (-3) 3 0, M_MAX_UNSIGNED)"
    unfolding SampleLightProbeMesh_def Let_def using two [of 6] by simp
  then have d: "SampleLightProbeMesh starMesh 8 (Vector3 (-1) 3 0) 0
      = Inr (Vector4 1 (-3) 3 0, M_MAX_UNSIGNED)"
    by simp
  from starMesh_bary0 a b c d show ?thesis by blast
qed

text \<open>
  C4, amended: on every walk step whose weights are not all non-negative, the walk moves
  to the neighbour across the face opposite a most negative coordinate (which is
  negative), and when several coordinates are most negative together the highest index
  among them wins; the walk ends there when that neighbour is the null index.
\<close>

theorem C4_walk_step_tie_break:
  assumes "GetInnerBarycentricCoords mesh hint position = Inr w"
    and "\<not> allNonNegative w"
  shows "walk mesh position (Suc n) weights hint =
           (let hint' = neighbors (tetrahedrons mesh ! hint) ! highestMinFace w
            in if hint' = M_MAX_UNSIGNED then Inr (w, hint') else walk mesh position n w hint')
         \<and> weightAt w (highestMinFace w) = minWeight w
         \<and> minWeight w < 0
         \<and> (\<forall>i<4. weightAt w i = minWeight w \<longrightarrow> i \<le> highestMinFace w)"
  using assms
  by (simp add: stepFace_highest weightAt_highest negative_minWeight highest_is_last)

theorem C4_walk_step_tie_break_witness:
  "GetInnerBarycentricCoords starMesh 0 (Vector3 (-1) 3 0) = Inr (Vector4 (-1) (-1) 3 0)
   \<and> \<not> allNonNegative (Vector4 (-1) (-1) 3 0)
   \<and> highestMinFace (Vector4 (-1) (-1) 3 0) = 1
   \<and> neighbors (tetrahedrons starMesh ! 0) = [1, 2, 3, 4]
   \<and> walk starMesh (Vector3 (-1) 3 0) (Suc 0) (Vector4 0 0 0 0) 0
       = Inr (Vector4 (-1) (-1) 3 0, 2)"
proof -
  have h2: "\<not> allNonNegative (Vector4 (-1) (-1) 3 0)"
    by (simp add: allNonNegative_def)
  have h3: "highestMinFace (Vector4 (-1) (-1) 3 0) = 1"
    by (simp add: highestMinFace_def minWeight_def)
  have nb0: "neighbors (tetrahedrons starMesh ! 0) = [1, 2, 3, 4]"
    by (simp add: starMesh_def)
  have "walk starMesh (Vector3 (-1) 3 0) (Suc 0) (Vector4 0 0 0 0) 0
      = Inr (Vector4 (-1) (-1) 3 0, 2)"
    using C4_walk_step_tie_break [OF starMesh_bary0 h2, of 0 "Vector4 0 0 0 0"]
    by (simp add: h3 nb0 M_MAX_UNSIGNED_def)
  with starMesh_bary0 h2 h3 nb0 show ?thesis by blast
qed

section \<open>The hint is checked against the probe count only\<close>

text \<open>The mesh a single probe leaves: one vertex and no cell.\<close>

definition singleProbeMesh :: TetrahedralMesh where
  "singleProbeMesh = \<lparr> vertices = [Vector3 0 0 0], tetrahedrons = [] \<rparr>"

lemma walk_first_lookup_out_of_bounds:
  "length (tetrahedrons mesh) \<le> hint \<Longrightarrow> walk mesh position (Suc n) weights hint = Inl OutOfBounds"
  by (simp add: GetInnerBarycentricCoords_def)

text \<open>
  C10: a hint at or above the probe count is reset to 0 before the walk; the hint is not
  compared with the cell count, so whenever the hint the walk starts from (0 after a
  reset) is not below the cell count, the first cell lookup is out of bounds; for a mesh
  with at least one probe and no cell that is always so.
\<close>

theorem C10_hint_checked_against_probe_count_only:
  assumes "0 < numProbes"
  shows "(numProbes \<le> hint \<longrightarrow>
            SampleLightProbeMesh mesh numProbes position hint
              = SampleLightProbeMesh mesh numProbes position 0)
         \<and> (length (tetrahedrons mesh) \<le> (if numProbes \<le> hint then 0 else hint) \<longrightarrow>
            SampleLightProbeMesh mesh numProbes position hint = Inl OutOfBounds)
         \<and> (tetrahedrons mesh = [] \<longrightarrow>
            SampleLightProbeMesh mesh numProbes position hint = Inl OutOfBounds)"
proof -
  from assms obtain n where n: "numProbes = Suc n"
    by (cases numProbes) auto
  have reset: "numProbes \<le> hint \<longrightarrow>
      SampleLightProbeMesh mesh numProbes position hint
        = SampleLightProbeMesh mesh numProbes position 0"
    by (simp add: SampleLightProbeMesh_def Let_def)
  have oob: "length (tetrahedrons mesh) \<le> (if numProbes \<le> hint then 0 else hint) \<longrightarrow>
      SampleLightProbeMesh mesh numProbes position hint = Inl OutOfBounds"
    unfolding SampleLightProbeMesh_def Let_def n
    using walk_first_lookup_out_of_bounds by blast
  have "tetrahedrons mesh = [] \<longrightarrow>
      SampleLightProbeMesh mesh numProbes position hint = Inl OutOfBounds"
    using oob by simp
  with reset oob show ?thesis by blast
qed

theorem C10_hint_checked_against_probe_count_only_witness:
  "(0::nat) < 1
   \<and> SampleLightProbeMesh singleProbeMesh 1 (Vector3 0 0 0) 5
       = SampleLightProbeMesh singleProbeMesh 1 (Vector3 0 0 0) 0
   \<and> SampleLightProbeMesh singleProbeMesh 1 (Vector3 0 0 0) 5 = Inl OutOfBounds"
proof -
  have h: "(0::nat) < 1" by simp
  note c = C10_hint_checked_against_probe_count_only [OF h, of 5 singleProbeMesh "Vector3 0 0 0"]
  have empty: "tetrahedrons singleProbeMesh = []"
    by (simp add: singleProbeMesh_def)
  have a: "SampleLightProbeMesh singleProbeMesh 1 (Vector3 0 0 0) 5
             = SampleLightProbeMesh singleProbeMesh 1 (Vector3 0 0 0) 0"
    using c by simp
  have b: "SampleLightProbeMesh singleProbeMesh 1 (Vector3 0 0 0) 5 = Inl OutOfBounds"
    using c empty by blast
  from h a b show ?thesis by blast
qed

section \<open>The circumsphere formula\<close>

subsection \<open>Facts about single-precision rounding\<close>











subsection \<open>The spec's sphere\<close>





subsection \<open>The code's sphere\<close>




















section \<open>The pass after the last insertion\<close>

text \<open>
  A \<open>for\<close> loop whose body can fail: the body runs on each index in turn and the
  first failure ends the loop.
\<close>

fun forE :: "('i \<Rightarrow> 's \<Rightarrow> error + 's) \<Rightarrow> 'i list \<Rightarrow> 's \<Rightarrow> error + 's" where
  "forE body [] s = Inr s"
| "forE body (i # is) s = (case body i s of Inl e \<Rightarrow> Inl e | Inr s' \<Rightarrow> forE body is s')"

definition bindE :: "error + 'a \<Rightarrow> ('a \<Rightarrow> error + 'b) \<Rightarrow> error + 'b" where
  "bindE r f = (case r of Inl e \<Rightarrow> Inl e | Inr v \<Rightarrow> f v)"

subsection \<open>Adjacency check\<close>

text \<open>
  \<open>IsTetrahedralMeshAdjacencyValid\<close>: the pairs (cell, face) are visited in the order of
  the two nested loops; the first neighbour that does not list the cell ends the check
  with \<open>false\<close>.
\<close>

fun adjacencyCheck :: "Tetrahedron list \<Rightarrow> (nat \<times> nat) list \<Rightarrow> error + bool" where
  "adjacencyCheck cells [] = Inr True"
| "adjacencyCheck cells ((cellIndex, i) # rest) =
     (let neighborIndex = neighbors (cells ! cellIndex) ! i
      in if neighborIndex \<noteq> M_MAX_UNSIGNED
         then if neighborIndex \<ge> length cells then Inl OutOfBounds
              else if count_list (neighbors (cells ! neighborIndex)) cellIndex = 0 then Inr False
              else adjacencyCheck cells rest
         else adjacencyCheck cells rest)"

definition IsTetrahedralMeshAdjacencyValid :: "TetrahedralMesh \<Rightarrow> error + bool" where
  "IsTetrahedralMeshAdjacencyValid mesh =
     adjacencyCheck (tetrahedrons mesh)
       (List.product [0..<length (tetrahedrons mesh)] [0, 1, 2, 3])"

subsection \<open>Culling the cells of the super-mesh\<close>

definition touchesSuperMesh :: "Tetrahedron \<Rightarrow> bool" where
  "touchesSuperMesh cell =
     (indices cell ! 0 < 8 \<or> indices cell ! 1 < 8 \<or> indices cell ! 2 < 8 \<or> indices cell ! 3 < 8)"

text \<open>\<open>ea::replace\<close> on the four neighbour slots of a cell.\<close>

definition replaceNeighbor :: "nat \<Rightarrow> nat \<Rightarrow> Tetrahedron \<Rightarrow> Tetrahedron" where
  "replaceNeighbor old new cell =
     cell \<lparr> neighbors := map (\<lambda>x. if x = old then new else x) (neighbors cell) \<rparr>"

text \<open>The inner loop over the four faces of the bad cell \<open>i\<close>.\<close>

definition clearBackLink :: "nat \<Rightarrow> nat \<Rightarrow> Tetrahedron list \<Rightarrow> error + Tetrahedron list" where
  "clearBackLink i j cells =
     (let neighborIndex = neighbors (cells ! i) ! j
      in if neighborIndex \<noteq> M_MAX_UNSIGNED
         then if neighborIndex \<ge> length cells then Inl OutOfBounds
              else Inr (cells [neighborIndex :=
                          replaceNeighbor i M_MAX_UNSIGNED (cells ! neighborIndex)])
         else Inr cells)"

text \<open>One iteration of the loop over the cells; the state is the cells and \<open>badFlags\<close>.\<close>

definition cullCell :: "nat \<Rightarrow> Tetrahedron list \<times> bool list \<Rightarrow> error + Tetrahedron list \<times> bool list" where
  "cullCell i st =
     (case st of (cells, badFlags) \<Rightarrow>
        if i \<ge> length badFlags then Inl OutOfBounds
        else let badFlags' = (if touchesSuperMesh (cells ! i) then badFlags [i := True] else badFlags)
             in if badFlags' ! i
                then bindE (forE (clearBackLink i) [0, 1, 2, 3] cells) (\<lambda>cells'. Inr (cells', badFlags'))
                else Inr (cells, badFlags'))"

definition cullSuperMesh :: "Tetrahedron list \<Rightarrow> bool list \<Rightarrow> error + Tetrahedron list \<times> bool list" where
  "cullSuperMesh cells badFlags = forE cullCell [0..<length cells] (cells, badFlags)"

subsection \<open>Copying the surviving cells\<close>

text \<open>
  The state of the copy loop is the output vector and \<open>newIndices\<close>; \<open>cells\<close> is the
  vector moved out of the mesh.
\<close>

definition copyCell ::
  "Tetrahedron list \<Rightarrow> bool list \<Rightarrow> nat \<Rightarrow> Tetrahedron list \<times> nat list \<Rightarrow> Tetrahedron list \<times> nat list" where
  "copyCell cells badFlags i st =
     (case st of (out, newIndices) \<Rightarrow>
        if badFlags ! i then (out, newIndices [i := M_MAX_UNSIGNED])
        else (out @ [cells ! i], newIndices [i := length out]))"

definition copyOutput :: "Tetrahedron list \<Rightarrow> bool list \<Rightarrow> Tetrahedron list \<times> nat list" where
  "copyOutput cells badFlags =
     fold (copyCell cells badFlags) [0..<length cells] ([], replicate (length cells) 0)"

text \<open>The remapping of one neighbour slot, with its assertion.\<close>

definition remapSlot :: "bool \<Rightarrow> nat list \<Rightarrow> nat \<Rightarrow> Tetrahedron \<Rightarrow> error + Tetrahedron" where
  "remapSlot ndebug newIndices i cell =
     (if neighbors cell ! i = M_MAX_UNSIGNED then Inr cell
      else if neighbors cell ! i \<ge> length newIndices then Inl OutOfBounds
      else let newIndex = newIndices ! (neighbors cell ! i)
           in if \<not> ndebug \<and> \<not> (newIndex \<noteq> M_MAX_UNSIGNED) then Inl AssertionFailed
              else Inr (cell \<lparr> neighbors := (neighbors cell) [i := newIndex] \<rparr>))"

definition remapCell :: "bool \<Rightarrow> nat list \<Rightarrow> Tetrahedron \<Rightarrow> error + Tetrahedron" where
  "remapCell ndebug newIndices cell = forE (remapSlot ndebug newIndices) [0, 1, 2, 3] cell"

fun mapE :: "('a \<Rightarrow> error + 'b) \<Rightarrow> 'a list \<Rightarrow> error + 'b list" where
  "mapE f [] = Inr []"
| "mapE f (x # xs) =
     (case f x of Inl e \<Rightarrow> Inl e
      | Inr y \<Rightarrow> (case mapE f xs of Inl e \<Rightarrow> Inl e | Inr ys \<Rightarrow> Inr (y # ys)))"

subsection \<open>Dropping the super-mesh vertices\<close>

text \<open>\<open>indices_[j] -= 8\<close> on a 32-bit unsigned.\<close>

definition sub8 :: "nat \<Rightarrow> nat" where
  "sub8 x = (x + 4294967296 - 8) mod 4294967296"

definition shiftIndices :: "Tetrahedron \<Rightarrow> Tetrahedron" where
  "shiftIndices cell = cell \<lparr> indices := map sub8 (indices cell) \<rparr>"

subsection \<open>The cached inverse basis\<close>

text \<open>
  Modelled from the spec: \<open>Matrix3::Inverse\<close> (the spec's ``3x3 matrix inverse'') and
  \<open>Vector4::Equals\<close> (comparison within a tolerance) belong to the engine's math
  library, which is not part of the sources.  The inverse is the adjugate over the
  determinant; a zero determinant is a division by zero.
\<close>

definition determinant :: "Matrix3 \<Rightarrow> real" where
  "determinant m =
     m00 m * m11 m * m22 m + m10 m * m21 m * m02 m + m20 m * m01 m * m12 m
     - m20 m * m11 m * m02 m - m10 m * m01 m * m22 m - m00 m * m21 m * m12 m"

definition Inverse :: "Matrix3 \<Rightarrow> Matrix3" where
  "Inverse m =
     (let invDet = 1 / determinant m
      in Matrix3 ((m11 m * m22 m - m21 m * m12 m) * invDet)
                 (- (m01 m * m22 m - m21 m * m02 m) * invDet)
                 ((m01 m * m12 m - m11 m * m02 m) * invDet)
                 (- (m10 m * m22 m - m20 m * m12 m) * invDet)
                 ((m00 m * m22 m - m20 m * m02 m) * invDet)
                 (- (m00 m * m12 m - m10 m * m02 m) * invDet)
                 ((m10 m * m21 m - m20 m * m11 m) * invDet)
                 (- (m00 m * m21 m - m20 m * m01 m) * invDet)
                 ((m00 m * m11 m - m10 m * m01 m) * invDet))"

definition Equals4 :: "Vector4 \<Rightarrow> Vector4 \<Rightarrow> bool" where
  "Equals4 a b =
     (\<bar>x4 a - x4 b\<bar> \<le> M_EPSILON \<and> \<bar>y4 a - y4 b\<bar> \<le> M_EPSILON \<and>
      \<bar>z4 a - z4 b\<bar> \<le> M_EPSILON \<and> \<bar>w4 a - w4 b\<bar> \<le> M_EPSILON)"

definition basisMatrix :: "Vector3 \<Rightarrow> Vector3 \<Rightarrow> Vector3 \<Rightarrow> Vector3 \<Rightarrow> Matrix3" where
  "basisMatrix p0 p1 p2 p3 =
     (let u1 = vsub p1 p0; u2 = vsub p2 p0; u3 = vsub p3 p0
      in Matrix3 (vx u1) (vx u2) (vx u3) (vy u1) (vy u2) (vy u3) (vz u1) (vz u2) (vz u3))"

text \<open>
  One iteration of the loop that caches the matrices.  The four assertions evaluate
  \<open>GetInnerBarycentricCoords\<close> on the cell just updated, whose vertex 0 is \<open>p0\<close>.
\<close>

definition computeMatrix :: "bool \<Rightarrow> Vector3 list \<Rightarrow> Tetrahedron \<Rightarrow> error + Tetrahedron" where
  "computeMatrix ndebug vs cell =
     (if \<not> cellVerticesInRange (length vs) cell then Inl OutOfBounds
      else let p0 = vs ! (indices cell ! 0);
               p1 = vs ! (indices cell ! 1);
               p2 = vs ! (indices cell ! 2);
               p3 = vs ! (indices cell ! 3);
               m = basisMatrix p0 p1 p2 p3
      in if determinant m = 0 then Inl NotFinite
         else let cell' = cell \<lparr> matrix := Inverse m \<rparr>
              in if \<not> ndebug \<and>
                    \<not> (Equals4 (baryOf (matrix cell') p0 p0) (Vector4 1 0 0 0) \<and>
                       Equals4 (baryOf (matrix cell') p0 p1) (Vector4 0 1 0 0) \<and>
                       Equals4 (baryOf (matrix cell') p0 p2) (Vector4 0 0 1 0) \<and>
                       Equals4 (baryOf (matrix cell') p0 p3) (Vector4 0 0 0 1))
                 then Inl AssertionFailed
                 else Inr cell')"

subsection \<open>The whole pass\<close>

text \<open>
  The tail of \<open>AddTetrahedralMeshVertices\<close>, from the loop that flags the cells of the
  super-mesh to the closing assertion, on the mesh and the \<open>badFlags\<close> the insertions
  have left.
\<close>

definition assertAdjacency :: "bool \<Rightarrow> TetrahedralMesh \<Rightarrow> error + TetrahedralMesh" where
  "assertAdjacency ndebug mesh =
     (if ndebug then Inr mesh
      else bindE (IsTetrahedralMeshAdjacencyValid mesh)
             (\<lambda>valid. if valid then Inr mesh else Inl AssertionFailed))"

definition postPass :: "bool \<Rightarrow> TetrahedralMesh \<Rightarrow> bool list \<Rightarrow> error + TetrahedralMesh" where
  "postPass ndebug mesh badFlags =
     bindE (cullSuperMesh (tetrahedrons mesh) badFlags) (\<lambda>culled.
       case copyOutput (fst culled) (snd culled) of (out, newIndices) \<Rightarrow>
         bindE (mapE (remapCell ndebug newIndices) out) (\<lambda>remapped.
           if length (vertices mesh) < 8 then Inl OutOfBounds
           else let vs = drop 8 (vertices mesh)
                in bindE (mapE (computeMatrix ndebug vs) (map shiftIndices remapped)) (\<lambda>cells.
                     assertAdjacency ndebug \<lparr> vertices = vs, tetrahedrons = cells \<rparr>)))"

section \<open>Basis round-trip of the cached matrix\<close>

lemma det_expand:
  "determinant (Matrix3 a b c d e f g h i) =
     a * e * i + d * h * c + g * b * f - g * e * c - d * b * i - a * h * f"
  by (simp add: determinant_def)

lemma col_frac:
  "x * (1 / D) * p + y * (1 / D) * q + z * (1 / D) * r = (x * p + y * q + z * r) / (D::real)"
  by (simp add: add_divide_distrib)

lemma inverse_col1:
  assumes "determinant (Matrix3 a b c d e f g h i) \<noteq> 0"
  shows "mulVec (Inverse (Matrix3 a b c d e f g h i)) (Vector3 a d g) = Vector3 1 0 0"
  using assms
  apply (simp add: mulVec_def Inverse_def Let_def col_frac
      del: times_divide_eq_left times_divide_eq_right)
  apply (simp add: det_expand algebra_simps)
  done

lemma inverse_col2:
  assumes "determinant (Matrix3 a b c d e f g h i) \<noteq> 0"
  shows "mulVec (Inverse (Matrix3 a b c d e f g h i)) (Vector3 b e h) = Vector3 0 1 0"
  using assms
  apply (simp add: mulVec_def Inverse_def Let_def col_frac
      del: times_divide_eq_left times_divide_eq_right)
  apply (simp add: det_expand algebra_simps)
  done

lemma inverse_col3:
  assumes "determinant (Matrix3 a b c d e f g h i) \<noteq> 0"
  shows "mulVec (Inverse (Matrix3 a b c d e f g h i)) (Vector3 c f i) = Vector3 0 0 1"
  using assms
  apply (simp add: mulVec_def Inverse_def Let_def col_frac
      del: times_divide_eq_left times_divide_eq_right)
  apply (simp add: det_expand algebra_simps)
  done

lemma mulVec_zero: "mulVec m (Vector3 0 0 0) = Vector3 0 0 0"
  by (simp add: mulVec_def)

lemma vsub_self: "vsub p p = Vector3 0 0 0"
  by (simp add: vsub_def)

lemma basisMatrix_columns:
  "basisMatrix p0 p1 p2 p3 =
     Matrix3 (vx (vsub p1 p0)) (vx (vsub p2 p0)) (vx (vsub p3 p0))
             (vy (vsub p1 p0)) (vy (vsub p2 p0)) (vy (vsub p3 p0))
             (vz (vsub p1 p0)) (vz (vsub p2 p0)) (vz (vsub p3 p0))"
  by (simp add: basisMatrix_def Let_def)

lemma Vector3_eta: "Vector3 (vx u) (vy u) (vz u) = u"
  by (cases u) simp

lemma bary_roundtrip:
  assumes "determinant (basisMatrix p0 p1 p2 p3) \<noteq> 0"
  shows "baryOf (Inverse (basisMatrix p0 p1 p2 p3)) p0 p0 = Vector4 1 0 0 0"
    and "baryOf (Inverse (basisMatrix p0 p1 p2 p3)) p0 p1 = Vector4 0 1 0 0"
    and "baryOf (Inverse (basisMatrix p0 p1 p2 p3)) p0 p2 = Vector4 0 0 1 0"
    and "baryOf (Inverse (basisMatrix p0 p1 p2 p3)) p0 p3 = Vector4 0 0 0 1"
proof -
  let ?u1 = "vsub p1 p0" and ?u2 = "vsub p2 p0" and ?u3 = "vsub p3 p0"
  note d = assms [unfolded basisMatrix_columns]
  show "baryOf (Inverse (basisMatrix p0 p1 p2 p3)) p0 p0 = Vector4 1 0 0 0"
    by (simp add: baryOf_def vsub_self mulVec_zero)
  have "mulVec (Inverse (basisMatrix p0 p1 p2 p3)) ?u1 = Vector3 1 0 0"
    unfolding basisMatrix_columns using inverse_col1 [OF d] by (simp add: Vector3_eta)
  then show "baryOf (Inverse (basisMatrix p0 p1 p2 p3)) p0 p1 = Vector4 0 1 0 0"
    by (simp add: baryOf_def)
  have "mulVec (Inverse (basisMatrix p0 p1 p2 p3)) ?u2 = Vector3 0 1 0"
    unfolding basisMatrix_columns using inverse_col2 [OF d] by (simp add: Vector3_eta)
  then show "baryOf (Inverse (basisMatrix p0 p1 p2 p3)) p0 p2 = Vector4 0 0 1 0"
    by (simp add: baryOf_def)
  have "mulVec (Inverse (basisMatrix p0 p1 p2 p3)) ?u3 = Vector3 0 0 1"
    unfolding basisMatrix_columns using inverse_col3 [OF d] by (simp add: Vector3_eta)
  then show "baryOf (Inverse (basisMatrix p0 p1 p2 p3)) p0 p3 = Vector4 0 0 0 1"
    by (simp add: baryOf_def)
qed

lemma bindE_Inr: "bindE r f = Inr v \<longleftrightarrow> (\<exists>a. r = Inr a \<and> f a = Inr v)"
  by (cases r) (simp_all add: bindE_def)

lemma mapE_length: "mapE f xs = Inr ys \<Longrightarrow> length ys = length xs"
  by (induction xs arbitrary: ys) (auto split: sum.splits)

lemma mapE_nth: "mapE f xs = Inr ys \<Longrightarrow> i < length xs \<Longrightarrow> f (xs ! i) = Inr (ys ! i)"
proof (induction xs arbitrary: ys i)
  case Nil
  then show ?case by simp
next
  case (Cons x xs)
  then show ?case by (cases i) (auto split: sum.splits)
qed

lemma computeMatrix_Inr:
  assumes "computeMatrix ndebug vs cell = Inr cell'"
  shows "cellVerticesInRange (length vs) cell"
    and "determinant (basisMatrix (vs ! (indices cell ! 0)) (vs ! (indices cell ! 1))
            (vs ! (indices cell ! 2)) (vs ! (indices cell ! 3))) \<noteq> 0"
    and "cell' = cell \<lparr> matrix := Inverse (basisMatrix (vs ! (indices cell ! 0))
            (vs ! (indices cell ! 1)) (vs ! (indices cell ! 2)) (vs ! (indices cell ! 3))) \<rparr>"
  using assms by (auto simp: computeMatrix_def Let_def split: if_splits)

lemma assertAdjacency_Inr: "assertAdjacency ndebug mesh = Inr mesh' \<Longrightarrow> mesh' = mesh"
  by (auto simp: assertAdjacency_def bindE_Inr split: if_splits)

lemma postPass_Inr_elim:
  assumes "postPass ndebug mesh badFlags = Inr mesh'"
  obtains cells flags out newIndices remapped where
    "cullSuperMesh (tetrahedrons mesh) badFlags = Inr (cells, flags)"
    "copyOutput cells flags = (out, newIndices)"
    "mapE (remapCell ndebug newIndices) out = Inr remapped"
    "8 \<le> length (vertices mesh)"
    "mapE (computeMatrix ndebug (drop 8 (vertices mesh))) (map shiftIndices remapped)
       = Inr (tetrahedrons mesh')"
    "vertices mesh' = drop 8 (vertices mesh)"
    "assertAdjacency ndebug mesh' = Inr mesh'"
proof -
  from assms obtain culled where
    1: "cullSuperMesh (tetrahedrons mesh) badFlags = Inr culled" and
    2: "(case copyOutput (fst culled) (snd culled) of (out, newIndices) \<Rightarrow>
         bindE (mapE (remapCell ndebug newIndices) out) (\<lambda>remapped.
           if length (vertices mesh) < 8 then Inl OutOfBounds
           else let vs = drop 8 (vertices mesh)
                in bindE (mapE (computeMatrix ndebug vs) (map shiftIndices remapped)) (\<lambda>cells.
                     assertAdjacency ndebug \<lparr> vertices = vs, tetrahedrons = cells \<rparr>))) = Inr mesh'"
    unfolding postPass_def bindE_Inr by blast
  obtain out newIndices where 3: "copyOutput (fst culled) (snd culled) = (out, newIndices)"
    by (cases "copyOutput (fst culled) (snd culled)") auto
  from 2 3 obtain remapped where
    4: "mapE (remapCell ndebug newIndices) out = Inr remapped" and
    5: "(if length (vertices mesh) < 8 then Inl OutOfBounds
           else let vs = drop 8 (vertices mesh)
                in bindE (mapE (computeMatrix ndebug vs) (map shiftIndices remapped)) (\<lambda>cells.
                     assertAdjacency ndebug \<lparr> vertices = vs, tetrahedrons = cells \<rparr>)) = Inr mesh'"
    by (auto simp: bindE_Inr)
  from 5 have 6: "8 \<le> length (vertices mesh)"
    by (auto split: if_splits)
  with 5 obtain cs where
    7: "mapE (computeMatrix ndebug (drop 8 (vertices mesh))) (map shiftIndices remapped) = Inr cs" and
    8: "assertAdjacency ndebug \<lparr> vertices = drop 8 (vertices mesh), tetrahedrons = cs \<rparr> = Inr mesh'"
    by (auto simp: bindE_Inr Let_def)
  from assertAdjacency_Inr [OF 8]
  have 9: "mesh' = \<lparr> vertices = drop 8 (vertices mesh), tetrahedrons = cs \<rparr>" .
  show thesis
  proof (rule that [of "fst culled" "snd culled" out newIndices remapped])
    show "cullSuperMesh (tetrahedrons mesh) badFlags = Inr (fst culled, snd culled)"
      using 1 by simp
    show "copyOutput (fst culled) (snd culled) = (out, newIndices)" by (rule 3)
    show "mapE (remapCell ndebug newIndices) out = Inr remapped" by (rule 4)
    show "8 \<le> length (vertices mesh)" by (rule 6)
    show "mapE (computeMatrix ndebug (drop 8 (vertices mesh))) (map shiftIndices remapped)
       = Inr (tetrahedrons mesh')" using 7 9 by simp
    show "vertices mesh' = drop 8 (vertices mesh)" using 9 by simp
    show "assertAdjacency ndebug mesh' = Inr mesh'" using 8 9 by simp
  qed
qed

lemma postPass_basis_roundtrip:
  assumes "postPass ndebug mesh badFlags = Inr mesh'"
    and "i < length (tetrahedrons mesh')"
    and "cell = tetrahedrons mesh' ! i"
  shows "GetInnerBarycentricCoords mesh' i (vertices mesh' ! (indices cell ! 0)) = Inr (Vector4 1 0 0 0)"
    and "GetInnerBarycentricCoords mesh' i (vertices mesh' ! (indices cell ! 1)) = Inr (Vector4 0 1 0 0)"
    and "GetInnerBarycentricCoords mesh' i (vertices mesh' ! (indices cell ! 2)) = Inr (Vector4 0 0 1 0)"
    and "GetInnerBarycentricCoords mesh' i (vertices mesh' ! (indices cell ! 3)) = Inr (Vector4 0 0 0 1)"
proof -
  from postPass_Inr_elim [OF assms(1)] obtain cells where
    m: "mapE (computeMatrix ndebug (vertices mesh')) cells = Inr (tetrahedrons mesh')"
    by metis
  from mapE_length [OF m] have len: "length cells = length (tetrahedrons mesh')"
    by simp
  from mapE_nth [OF m] assms(2,3) len
  have c: "computeMatrix ndebug (vertices mesh') (cells ! i) = Inr cell" by simp
  note r = computeMatrix_Inr [OF c]
  have ind: "indices cell = indices (cells ! i)" using r(3) by simp
  have mat: "matrix cell = Inverse (basisMatrix (vertices mesh' ! (indices cell ! 0))
            (vertices mesh' ! (indices cell ! 1)) (vertices mesh' ! (indices cell ! 2))
            (vertices mesh' ! (indices cell ! 3)))"
    using r(3) by simp
  have rng: "indices cell ! 0 < length (vertices mesh')"
    using r(1) ind by (simp add: cellVerticesInRange_def)
  have g: "GetInnerBarycentricCoords mesh' i p
      = Inr (baryOf (matrix cell) (vertices mesh' ! (indices cell ! 0)) p)" for p
    using assms(2,3) rng by (simp add: GetInnerBarycentricCoords_def Let_def)
  note b = bary_roundtrip [OF r(2) [folded ind]]
  show "GetInnerBarycentricCoords mesh' i (vertices mesh' ! (indices cell ! 0)) = Inr (Vector4 1 0 0 0)"
    and "GetInnerBarycentricCoords mesh' i (vertices mesh' ! (indices cell ! 1)) = Inr (Vector4 0 1 0 0)"
    and "GetInnerBarycentricCoords mesh' i (vertices mesh' ! (indices cell ! 2)) = Inr (Vector4 0 0 1 0)"
    and "GetInnerBarycentricCoords mesh' i (vertices mesh' ! (indices cell ! 3)) = Inr (Vector4 0 0 0 1)"
    unfolding g mat using b by simp_all
qed

section \<open>Construction\<close>

subsection \<open>The super-mesh\<close>

text \<open>
  Modelled from the spec: \<open>BoundingBox\<close> is a class of the engine's math library, not
  part of the sources.  The spec has \<open>Define\<close> compute ``the axis-aligned bounding box
  of all points''; the box of no point has infinite bounds and is left out.
\<close>

record BoundingBox =
  bbMin :: Vector3
  bbMax :: Vector3

definition vmin :: "Vector3 \<Rightarrow> Vector3 \<Rightarrow> Vector3" where
  "vmin a b = Vector3 (min (vx a) (vx b)) (min (vy a) (vy b)) (min (vz a) (vz b))"

definition vmax :: "Vector3 \<Rightarrow> Vector3 \<Rightarrow> Vector3" where
  "vmax a b = Vector3 (max (vx a) (vx b)) (max (vy a) (vy b)) (max (vz a) (vz b))"

definition mergePoint :: "BoundingBox \<Rightarrow> Vector3 \<Rightarrow> BoundingBox" where
  "mergePoint box p = \<lparr> bbMin = vmin (bbMin box) p, bbMax = vmax (bbMax box) p \<rparr>"

definition boundingBoxOf :: "Vector3 \<Rightarrow> Vector3 list \<Rightarrow> BoundingBox" where
  "boundingBoxOf p ps = foldl mergePoint \<lparr> bbMin = p, bbMax = p \<rparr> ps"

definition bbSize :: "BoundingBox \<Rightarrow> Vector3" where
  "bbSize box = vsub (bbMax box) (bbMin box)"

definition superOffsets :: "Vector3 list" where
  "superOffsets =
     [Vector3 0 0 0, Vector3 1 0 0, Vector3 0 1 0, Vector3 1 1 0,
      Vector3 0 0 1, Vector3 1 0 1, Vector3 0 1 1, Vector3 1 1 1]"

definition superIndices :: "nat list list" where
  "superIndices = [[0, 1, 2, 4], [3, 1, 2, 7], [5, 1, 4, 7], [6, 2, 4, 7], [1, 2, 4, 7]]"

definition superNeighbors :: "nat list list" where
  "superNeighbors =
     [[4, M_MAX_UNSIGNED, M_MAX_UNSIGNED, M_MAX_UNSIGNED],
      [4, M_MAX_UNSIGNED, M_MAX_UNSIGNED, M_MAX_UNSIGNED],
      [4, M_MAX_UNSIGNED, M_MAX_UNSIGNED, M_MAX_UNSIGNED],
      [4, M_MAX_UNSIGNED, M_MAX_UNSIGNED, M_MAX_UNSIGNED],
      [3, 2, 1, 0]]"

text \<open>The matrix of a cell that has not been through the last pass is the identity.\<close>

definition superCell :: "nat \<Rightarrow> Tetrahedron" where
  "superCell i = \<lparr> indices = superIndices ! i, neighbors = superNeighbors ! i,
                   matrix = Matrix3 1 0 0 0 1 0 0 0 1 \<rparr>"

definition InitializeSuperMesh :: "BoundingBox \<Rightarrow> TetrahedralMesh" where
  "InitializeSuperMesh boundingBox =
     \<lparr> vertices = map (\<lambda>i. vadd (bbMin boundingBox) (vmul (bbSize boundingBox) (superOffsets ! i)))
                    [0..<8],
       tetrahedrons = map superCell [0..<5] \<rparr>"

subsection \<open>The hole surface\<close>

text \<open>
  Modelled from the spec: \<open>Sphere::IsInside\<close>, \<open>Tetrahedron::GetTriangleFace\<close> and
  the class \<open>TetrahedralMeshSurface\<close> are declared in headers that are not part of the
  sources.  From the spec: a point is inside, outside or on the boundary of a sphere,
  tested against the inflated radius; a hole face is the face of a cell opposite one of
  its vertices, tagged with the outer cell it borders and the face of that cell; the
  neighbour at position \<open>j\<close> lies across the edge opposite vertex \<open>j\<close>; the surface is
  closed when every edge is shared by exactly two triangles.
\<close>

datatype Intersection = OUTSIDE | INTERSECTS | INSIDE

definition IsInside :: "Sphere \<Rightarrow> Vector3 \<Rightarrow> Intersection" where
  "IsInside s p =
     (let distSquared = LengthSquared (vsub p (center s))
      in if distSquared < radius s * radius s then INSIDE
         else if distSquared = radius s * radius s then INTERSECTS
         else OUTSIDE)"

record TetrahedralMeshSurfaceTriangle =
  faceIndices :: "nat list"
  faceNeighbors :: "nat list"
  tetIndex :: nat
  tetFace :: nat

definition GetTriangleFace ::
  "Tetrahedron \<Rightarrow> nat \<Rightarrow> nat \<Rightarrow> nat \<Rightarrow> error + TetrahedralMeshSurfaceTriangle" where
  "GetTriangleFace cell faceIndex tetIdx tetFc =
     (if faceIndex \<ge> 4 then Inl OutOfBounds
      else Inr \<lparr> faceIndices = map (\<lambda>j. indices cell ! j) (filter (\<lambda>j. j \<noteq> faceIndex) [0, 1, 2, 3]),
                 faceNeighbors = [M_MAX_UNSIGNED, M_MAX_UNSIGNED, M_MAX_UNSIGNED],
                 tetIndex = tetIdx, tetFace = tetFc \<rparr>)"

definition edgeOf :: "nat list \<Rightarrow> nat \<Rightarrow> nat \<times> nat" where
  "edgeOf tri j =
     (let a = tri ! ((j + 1) mod 3); b = tri ! ((j + 2) mod 3) in (min a b, max a b))"

definition setFaceNeighbor ::
  "nat \<Rightarrow> nat \<Rightarrow> TetrahedralMeshSurfaceTriangle \<Rightarrow> TetrahedralMeshSurfaceTriangle" where
  "setFaceNeighbor j k face = face \<lparr> faceNeighbors := (faceNeighbors face) [j := k] \<rparr>"

definition linkEdges ::
  "nat \<Rightarrow> nat \<Rightarrow> nat \<times> nat \<Rightarrow> TetrahedralMeshSurfaceTriangle list \<Rightarrow> TetrahedralMeshSurfaceTriangle list" where
  "linkEdges n k ab faces =
     (case ab of (a, b) \<Rightarrow>
        if edgeOf (faceIndices (faces ! n)) a = edgeOf (faceIndices (faces ! k)) b
        then (faces [n := setFaceNeighbor a k (faces ! n)])
                    [k := setFaceNeighbor b n (faces ! k)]
        else faces)"

definition AddFace ::
  "TetrahedralMeshSurfaceTriangle list \<Rightarrow> TetrahedralMeshSurfaceTriangle \<Rightarrow> TetrahedralMeshSurfaceTriangle list" where
  "AddFace faces newFace =
     fold (\<lambda>k. fold (linkEdges (length faces) k) (List.product [0, 1, 2] [0, 1, 2]))
       [0..<length faces] (faces @ [newFace])"

definition edgeCount :: "TetrahedralMeshSurfaceTriangle list \<Rightarrow> nat \<times> nat \<Rightarrow> nat" where
  "edgeCount faces e =
     length (filter (\<lambda>fj. edgeOf (faceIndices (fst fj)) (snd fj) = e) (List.product faces [0, 1, 2]))"

definition IsClosedSurface :: "TetrahedralMeshSurfaceTriangle list \<Rightarrow> bool" where
  "IsClosedSurface faces =
     list_all (\<lambda>fj. edgeCount faces (edgeOf (faceIndices (fst fj)) (snd fj)) = 2)
       (List.product faces [0, 1, 2])"

subsection \<open>Inserting one point\<close>

text \<open>
  The working state of \<open>AddTetrahedralMeshVertices\<close>: the mesh and the two vectors that
  run parallel to its cells.
\<close>

record Build =
  mesh :: TetrahedralMesh
  circumspheres :: "Sphere list"
  badFlags :: "bool list"

text \<open>The vectors of one insertion; \<open>flags\<close> is \<open>badFlags\<close> while the search runs.\<close>

record Search =
  badCells :: "nat list"
  searchQueue :: "nat list"
  flags :: "bool list"
  holeSurface :: "TetrahedralMeshSurfaceTriangle list"

text \<open>The first unflagged cell whose circumsphere holds the point, if there is one.\<close>

fun findFirstBad :: "bool list \<Rightarrow> Sphere list \<Rightarrow> Vector3 \<Rightarrow> nat list \<Rightarrow> nat option" where
  "findFirstBad fl spheres position [] = None"
| "findFirstBad fl spheres position (cellIndex # rest) =
     (if \<not> fl ! cellIndex \<and> IsInside (spheres ! cellIndex) position \<noteq> OUTSIDE
      then Some cellIndex
      else findFirstBad fl spheres position rest)"

text \<open>\<open>ea::find(...) - begin\<close>: the position of the first match, the length when none.\<close>

fun findIndex :: "nat \<Rightarrow> nat list \<Rightarrow> nat" where
  "findIndex x [] = 0"
| "findIndex x (y # ys) = (if y = x then 0 else Suc (findIndex x ys))"

definition addHoleFace :: "Search \<Rightarrow> TetrahedralMeshSurfaceTriangle \<Rightarrow> Search" where
  "addHoleFace s newFace = s \<lparr> holeSurface := AddFace (holeSurface s) newFace \<rparr>"

text \<open>The body of the loop over the four neighbours of the cell \<open>searchQueue[i]\<close>.\<close>

definition processNeighbor ::
  "Tetrahedron list \<Rightarrow> Sphere list \<Rightarrow> Vector3 \<Rightarrow> nat \<Rightarrow> nat \<Rightarrow> Search \<Rightarrow> error + Search" where
  "processNeighbor cells spheres position i j s =
     (if searchQueue s ! i \<ge> length cells then Inl OutOfBounds
      else let tetrahedron = cells ! (searchQueue s ! i);
               nextIndex = neighbors tetrahedron ! j
      in if nextIndex = M_MAX_UNSIGNED
         then bindE (GetTriangleFace tetrahedron j M_MAX_UNSIGNED M_MAX_UNSIGNED)
                (\<lambda>newFace. Inr (addHoleFace s newFace))
         else if nextIndex \<ge> length cells \<or> nextIndex \<ge> length (flags s)
                 \<or> nextIndex \<ge> length spheres then Inl OutOfBounds
         else let nextTetrahedron = cells ! nextIndex
              in if flags s ! nextIndex then Inr s
                 else if IsInside (spheres ! nextIndex) position \<noteq> OUTSIDE
                 then Inr (s \<lparr> badCells := badCells s @ [nextIndex],
                               searchQueue := searchQueue s @ [nextIndex],
                               flags := (flags s) [nextIndex := True] \<rparr>)
                 else let nextFaceIndex = findIndex (searchQueue s ! i) (neighbors nextTetrahedron)
                      in bindE (GetTriangleFace nextTetrahedron nextFaceIndex nextIndex nextFaceIndex)
                           (\<lambda>newFace. Inr (addHoleFace s newFace)))"

definition processCell ::
  "Tetrahedron list \<Rightarrow> Sphere list \<Rightarrow> Vector3 \<Rightarrow> nat \<Rightarrow> Search \<Rightarrow> error + Search" where
  "processCell cells spheres position i s =
     forE (processNeighbor cells spheres position i) [0, 1, 2, 3] s"

text \<open>
  What the search has left to do: every push flags a cell that was not flagged, and every
  cell of the queue is processed once.
\<close>

definition searchMeasure :: "nat \<Rightarrow> Search \<Rightarrow> nat" where
  "searchMeasure firstCell s =
     2 * length (filter Not (flags s)) + (length (searchQueue s) - firstCell)"

lemma forE_append:
  "forE body (xs @ ys) s = (case forE body xs s of Inl e \<Rightarrow> Inl e | Inr s' \<Rightarrow> forE body ys s')"
  by (induction xs arbitrary: s) (auto split: sum.splits)

lemma forE_invariant:
  assumes "forE body xs s = Inr s'"
    and "P s"
    and "\<And>i a b. i \<in> set xs \<Longrightarrow> P a \<Longrightarrow> body i a = Inr b \<Longrightarrow> P b"
  shows "P s'"
  using assms
proof (induction xs arbitrary: s)
  case Nil
  then show ?case by simp
next
  case (Cons x xs)
  from Cons.prems(1) obtain t where t: "body x s = Inr t" and r: "forE body xs t = Inr s'"
    by (auto split: sum.splits)
  have "P t" using Cons.prems(2,3) t by auto
  with Cons.IH [OF r] Cons.prems(3) show ?case by auto
qed

lemma unflagged_update:
  assumes "i < length fl" and "\<not> fl ! i"
  shows "Suc (length (filter Not (fl [i := True]))) = length (filter Not fl)"
  using assms
proof (induction fl arbitrary: i)
  case Nil
  then show ?case by simp
next
  case (Cons b fl)
  then show ?case by (cases i) auto
qed

lemma processNeighbor_weight:
  assumes "processNeighbor cells spheres position i j s = Inr s'"
  shows "2 * length (filter Not (flags s')) + length (searchQueue s')
           \<le> 2 * length (filter Not (flags s)) + length (searchQueue s)
         \<and> length (searchQueue s) \<le> length (searchQueue s')"
proof -
  have push: "2 * length (filter Not ((flags s) [n := True])) + Suc (length (searchQueue s))
      \<le> 2 * length (filter Not (flags s)) + length (searchQueue s)"
    if "n < length (flags s)" and "\<not> flags s ! n" for n
    using unflagged_update [OF that] by arith
  show ?thesis
    using assms push
    by (auto simp: processNeighbor_def Let_def bindE_Inr addHoleFace_def split: if_splits)
qed

lemma processCell_weight:
  assumes "processCell cells spheres position i s = Inr s'"
  shows "2 * length (filter Not (flags s')) + length (searchQueue s')
           \<le> 2 * length (filter Not (flags s)) + length (searchQueue s)
         \<and> length (searchQueue s) \<le> length (searchQueue s')"
proof -
  let ?P = "\<lambda>t. 2 * length (filter Not (flags t)) + length (searchQueue t)
           \<le> 2 * length (filter Not (flags s)) + length (searchQueue s)
         \<and> length (searchQueue s) \<le> length (searchQueue t)"
  have "?P s'"
  proof (rule forE_invariant [where P = ?P, OF assms [unfolded processCell_def]])
    show "?P s" by simp
  next
    fix j a b
    assume "?P a" and "processNeighbor cells spheres position i j a = Inr b"
    with processNeighbor_weight [of cells spheres position i j a b]
    show "?P b" by linarith
  qed
  then show ?thesis .
qed

lemma search_level_weight:
  assumes "forE (processCell cells spheres position) is s = Inr s'"
  shows "2 * length (filter Not (flags s')) + length (searchQueue s')
           \<le> 2 * length (filter Not (flags s)) + length (searchQueue s)
         \<and> length (searchQueue s) \<le> length (searchQueue s')"
proof -
  let ?P = "\<lambda>t. 2 * length (filter Not (flags t)) + length (searchQueue t)
           \<le> 2 * length (filter Not (flags s)) + length (searchQueue s)
         \<and> length (searchQueue s) \<le> length (searchQueue t)"
  have "?P s'"
  proof (rule forE_invariant [where P = ?P, OF assms])
    show "?P s" by simp
  next
    fix i a b
    assume "?P a" and "processCell cells spheres position i a = Inr b"
    with processCell_weight [of cells spheres position i a b]
    show "?P b" by linarith
  qed
  then show ?thesis .
qed

text \<open>
  The breadth-first search: the outer \<open>while\<close> runs as long as the queue holds cells
  that have not been processed, the inner \<open>for\<close> processes the cells queued so far.
\<close>

function breadthSearch ::
  "Tetrahedron list \<Rightarrow> Sphere list \<Rightarrow> Vector3 \<Rightarrow> nat \<Rightarrow> Search \<Rightarrow> error + Search" where
  "breadthSearch cells spheres position firstCell s =
     (if firstCell < length (searchQueue s)
      then let lastCell = length (searchQueue s)
           in case forE (processCell cells spheres position) [firstCell..<lastCell] s of
                Inl e \<Rightarrow> Inl e
              | Inr s' \<Rightarrow> breadthSearch cells spheres position lastCell s'
      else Inr s)"
  by pat_completeness auto

termination
proof (relation "measure (\<lambda>(cells, spheres, position, firstCell, s). searchMeasure firstCell s)")
  show "wf (measure (\<lambda>(cells, spheres, position, firstCell, s). searchMeasure firstCell s))"
    by simp
next
  fix cells :: "Tetrahedron list" and spheres position firstCell and s :: Search
    and lastCell s'
  assume lt: "firstCell < length (searchQueue s)"
    and last: "lastCell = length (searchQueue s)"
    and run: "forE (processCell cells spheres position) [firstCell..<lastCell] s = Inr s'"
  from search_level_weight [OF run]
  have "searchMeasure lastCell s' < searchMeasure firstCell s"
    using lt last unfolding searchMeasure_def by linarith
  then show "((cells, spheres, position, lastCell, s'), (cells, spheres, position, firstCell, s))
      \<in> measure (\<lambda>(cells, spheres, position, firstCell, s). searchMeasure firstCell s)"
    by simp
qed

text \<open>
  The loop that recycles cell slots: while the hole has more faces than there are bad
  cells, a fresh default cell is appended to the mesh and flagged.  The sphere appended
  with it is written before it is read.
\<close>

definition defaultTetrahedron :: Tetrahedron where
  "defaultTetrahedron =
     \<lparr> indices = [0, 0, 0, 0],
       neighbors = [M_MAX_UNSIGNED, M_MAX_UNSIGNED, M_MAX_UNSIGNED, M_MAX_UNSIGNED],
       matrix = Matrix3 1 0 0 0 1 0 0 0 1 \<rparr>"

definition defaultSphere :: Sphere where
  "defaultSphere = \<lparr> center = Vector3 0 0 0, radius = 0 \<rparr>"

definition pushCell :: "Build \<times> nat list \<Rightarrow> Build \<times> nat list" where
  "pushCell bc =
     (case bc of (b, cellsBad) \<Rightarrow>
        (b \<lparr> mesh := (mesh b) \<lparr> tetrahedrons := tetrahedrons (mesh b) @ [defaultTetrahedron] \<rparr>,
             circumspheres := circumspheres b @ [defaultSphere],
             badFlags := badFlags b @ [True] \<rparr>,
         cellsBad @ [length (tetrahedrons (mesh b))]))"

function growCells :: "nat \<Rightarrow> Build \<times> nat list \<Rightarrow> Build \<times> nat list" where
  "growCells holeSize bc =
     (if holeSize > length (snd bc) then growCells holeSize (pushCell bc) else bc)"
  by pat_completeness auto

termination
  by (relation "measure (\<lambda>(holeSize, bc). holeSize - length (snd bc))")
    (auto simp: pushCell_def split: prod.splits)

text \<open>
  One iteration of the loop that writes the new cells: cell \<open>badCells[i]\<close> is built on
  face \<open>i\<close> of the hole and the new vertex.
\<close>

definition writeCell ::
  "bool \<Rightarrow> (real \<Rightarrow> real) \<Rightarrow> nat list \<Rightarrow> TetrahedralMeshSurfaceTriangle list \<Rightarrow> nat \<Rightarrow> nat \<Rightarrow> Build \<Rightarrow> error + Build" where
  "writeCell ndebug fl cellsBad hole newIndex i b =
     (if i \<ge> length cellsBad \<or> i \<ge> length hole then Inl OutOfBounds
      else let newCellIndex = cellsBad ! i;
               face = hole ! i;
               cells = tetrahedrons (mesh b)
      in if newCellIndex \<ge> length cells then Inl OutOfBounds
         else if faceNeighbors face ! 0 \<ge> length cellsBad \<or> faceNeighbors face ! 1 \<ge> length cellsBad
                 \<or> faceNeighbors face ! 2 \<ge> length cellsBad then Inl OutOfBounds
         else let tetrahedron = (cells ! newCellIndex)
                    \<lparr> indices := [faceIndices face ! 0, faceIndices face ! 1, faceIndices face ! 2,
                                  newIndex],
                      neighbors := [cellsBad ! (faceNeighbors face ! 0),
                                    cellsBad ! (faceNeighbors face ! 1),
                                    cellsBad ! (faceNeighbors face ! 2), tetIndex face] \<rparr>;
                  cells1 = cells [newCellIndex := tetrahedron]
              in if tetIndex face \<noteq> M_MAX_UNSIGNED
                    \<and> (tetIndex face \<ge> length cells1 \<or> tetFace face \<ge> 4) then Inl OutOfBounds
                 else if newCellIndex \<ge> length (badFlags b) \<or> newCellIndex \<ge> length (circumspheres b)
                 then Inl OutOfBounds
                 else let cells2 =
                            (if tetIndex face \<noteq> M_MAX_UNSIGNED
                             then cells1 [tetIndex face := (cells1 ! tetIndex face)
                                    \<lparr> neighbors := (neighbors (cells1 ! tetIndex face))
                                                     [tetFace face := newCellIndex] \<rparr>]
                             else cells1);
                          mesh2 = (mesh b) \<lparr> tetrahedrons := cells2 \<rparr>
                      in bindE (GetTetrahedronCircumsphere ndebug fl mesh2 newCellIndex)
                           (\<lambda>sphere. Inr (b \<lparr> mesh := mesh2,
                                              badFlags := (badFlags b) [newCellIndex := False],
                                              circumspheres := (circumspheres b) [newCellIndex := sphere] \<rparr>)))"

text \<open>
  The body of the loop over the positions.  \<open>Return\<close> is the \<open>return\<close> that follows
  \<open>assert(0)\<close>: it leaves the function at once, with the mesh as it is.
\<close>

datatype 'a flow = Continue 'a | Return 'a

definition insertPoint :: "bool \<Rightarrow> (real \<Rightarrow> real) \<Rightarrow> Vector3 \<Rightarrow> Build \<Rightarrow> error + Build flow" where
  "insertPoint ndebug fl position b0 =
     (let newIndex = length (vertices (mesh b0));
          b = b0 \<lparr> mesh := (mesh b0) \<lparr> vertices := vertices (mesh b0) @ [position] \<rparr> \<rparr>;
          cells = tetrahedrons (mesh b)
      in case findFirstBad (badFlags b) (circumspheres b) position [0..<length cells] of
           None \<Rightarrow> if ndebug then Inr (Return b) else Inl AssertionFailed
         | Some cellIndex \<Rightarrow>
             bindE (breadthSearch cells (circumspheres b) position 0
                      \<lparr> badCells = [cellIndex], searchQueue = [cellIndex],
                        flags = (badFlags b) [cellIndex := True], holeSurface = [] \<rparr>)
               (\<lambda>s. let b1 = b \<lparr> badFlags := flags s \<rparr>
                    in if \<not> IsClosedSurface (holeSurface s)
                       then if ndebug then Inr (Return b1) else Inl AssertionFailed
                       else case growCells (length (holeSurface s)) (b1, badCells s) of
                              (b2, cellsBad) \<Rightarrow>
                                bindE (forE (writeCell ndebug fl cellsBad (holeSurface s) newIndex)
                                         [0..<length (holeSurface s)] b2)
                                  (\<lambda>b3. Inr (Continue b3))))"

fun insertPoints :: "bool \<Rightarrow> (real \<Rightarrow> real) \<Rightarrow> Vector3 list \<Rightarrow> Build \<Rightarrow> error + Build flow" where
  "insertPoints ndebug fl [] b = Inr (Continue b)"
| "insertPoints ndebug fl (position # rest) b =
     (case insertPoint ndebug fl position b of
        Inl e \<Rightarrow> Inl e
      | Inr (Return b') \<Rightarrow> Inr (Return b')
      | Inr (Continue b') \<Rightarrow> insertPoints ndebug fl rest b')"

subsection \<open>The build\<close>

definition AddTetrahedralMeshVertices ::
  "bool \<Rightarrow> (real \<Rightarrow> real) \<Rightarrow> TetrahedralMesh \<Rightarrow> Vector3 list \<Rightarrow> error + TetrahedralMesh" where
  "AddTetrahedralMeshVertices ndebug fl m positions =
     bindE (mapE (GetTetrahedronCircumsphere ndebug fl m) [0..<length (tetrahedrons m)]) (\<lambda>spheres.
       bindE (insertPoints ndebug fl positions
                \<lparr> mesh = m, circumspheres = spheres,
                  badFlags = replicate (length (tetrahedrons m)) False \<rparr>)
         (\<lambda>r. case r of
                 Return b \<Rightarrow> Inr (mesh b)
               | Continue b \<Rightarrow> postPass ndebug (mesh b) (badFlags b)))"

definition Define :: "bool \<Rightarrow> (real \<Rightarrow> real) \<Rightarrow> Vector3 list \<Rightarrow> real \<Rightarrow> error + TetrahedralMesh" where
  "Define ndebug fl positions padding =
     (case positions of
        [] \<Rightarrow> Inl NotFinite
      | p # ps \<Rightarrow>
          let boundingBox = boundingBoxOf p ps;
              padded = \<lparr> bbMin = vsub (bbMin boundingBox) (vscale padding (Vector3 1 1 1)),
                         bbMax = vadd (bbMax boundingBox) (vscale padding (Vector3 1 1 1)) \<rparr>
          in AddTetrahedralMeshVertices ndebug fl (InitializeSuperMesh padded) positions)"

end
